theory Spec2Isabelle
  imports Complex_Main
begin

section \<open>Data model\<close>

text \<open>
  The traversability map generator of \<^verbatim>\<open>TraversabilityMapGenerator.cpp\<close> works on three
  grids: the laser elevation grid, its interpolated copy and the traversability grid.
  C++ \<^verbatim>\<open>double\<close> values are idealised as \<^typ>\<open>real\<close>; \<^verbatim>\<open>int\<close> indices are \<^typ>\<open>int\<close>.
\<close>

type_synonym Vector3d = "real \<times> real \<times> real"
type_synonym Vector2i = "int \<times> int"

text \<open>The classification enum; the order of the tags is the one the specification lists.\<close>

datatype Traversability = UNCLASSIFIED | TRAVERSABLE | OBSTACLE | UNKNOWN_OBSTACLE

text \<open>\<^verbatim>\<open>std::numeric_limits<double>::max()\<close>; its negation is the no-data sentinel of a maximum.\<close>

definition DBL_MAX :: real where
  "DBL_MAX = (2 ^ 53 - 1) * 2 ^ 971"

text \<open>
  Modelled from the spec: the class \<^verbatim>\<open>ElevationEntry\<close> (its header is not among the sources).
  Section 4.1: a cell aggregates height samples into minimum, maximum, median, a measurement
  count and an interpolated flag. \<^verbatim>\<open>add_measurement(h)\<close> appends \<open>h\<close>, updates minimum, maximum
  and median, clears the interpolated flag and increments the count;
  \<^verbatim>\<open>set_interpolated(h)\<close> sets the median, marks the cell interpolated and leaves the count.
  The count is the number of appended samples. The median estimator is left open by the
  specification ("a 50th-percentile estimate of inserted heights"), so it is the parameter
  \<open>med\<close>, a function of the inserted samples.
\<close>

record ElevationEntry =
  heights :: "real list"
  getMinimum :: real
  getMaximum :: real
  getMedian :: real
  isInterpolated :: bool

definition getMeasurementCount :: "ElevationEntry \<Rightarrow> nat" where
  "getMeasurementCount e = length (heights e)"

definition addHeightMeasurement ::
  "(real list \<Rightarrow> real) \<Rightarrow> real \<Rightarrow> ElevationEntry \<Rightarrow> ElevationEntry" where
  "addHeightMeasurement med h e =
     e\<lparr>heights := heights e @ [h],
       getMinimum := min (getMinimum e) h,
       getMaximum := max (getMaximum e) h,
       getMedian := med (heights e @ [h]),
       isInterpolated := False\<rparr>"

definition setInterpolatedMeasurement :: "real \<Rightarrow> ElevationEntry \<Rightarrow> ElevationEntry" where
  "setInterpolatedMeasurement h e = e\<lparr>getMedian := h, isInterpolated := True\<rparr>"

text \<open>
  Modelled from the spec: the empty cell a grid starts with and resets to. Section 3 fixes
  its count (0) and its maximum (the sentinel); the minimum is taken as the mirrored sentinel
  and the median as 0.
\<close>

definition emptyEntry :: ElevationEntry where
  "emptyEntry =
     \<lparr>heights = [], getMinimum = DBL_MAX, getMaximum = - DBL_MAX, getMedian = 0, isInterpolated = False\<rparr>"

text \<open>One concrete estimator, the upper median of the sorted samples.\<close>

definition median_of :: "real list \<Rightarrow> real" where
  "median_of hs = (if hs = [] then 0 else sort hs ! (length hs div 2))"

text \<open>
  Modelled from the spec: the class template \<^verbatim>\<open>Grid\<close> behind \<^verbatim>\<open>ElevationGrid\<close> and
  \<^verbatim>\<open>TraversabilityGrid\<close> (its header is not among the sources). Section 3: width \<open>W\<close> and
  height \<open>H\<close> in cells, a resolution in metres per cell, the world position of the grid
  centre and one entry per cell; a world point \<open>p\<close> has the cell index
  \<open>floor ((p - origin) / r + (W/2, H/2))\<close>, which lies in \<open>[0,W) \<times> [0,H)\<close> iff \<open>p\<close> is inside
  the grid. Entries are read only at indices the caller has tested with \<open>inGrid\<close>.
\<close>

record 'a Grid =
  getWidth :: int
  getHeight :: int
  getGridResolution :: real
  getGridPosition :: Vector3d
  getEntry :: "Vector2i \<Rightarrow> 'a"

definition inGrid :: "'a Grid \<Rightarrow> Vector2i \<Rightarrow> bool" where
  "inGrid g p = (0 \<le> fst p \<and> fst p < getWidth g \<and> 0 \<le> snd p \<and> snd p < getHeight g)"

definition setEntry :: "'a Grid \<Rightarrow> Vector2i \<Rightarrow> 'a \<Rightarrow> 'a Grid" where
  "setEntry g p v = g\<lparr>getEntry := (getEntry g)(p := v)\<rparr>"

definition setGridPosition :: "Vector3d \<Rightarrow> 'a Grid \<Rightarrow> 'a Grid" where
  "setGridPosition pos g = g\<lparr>getGridPosition := pos\<rparr>"

definition getGridPoint :: "'a Grid \<Rightarrow> Vector3d \<Rightarrow> Vector2i option" where
  "getGridPoint g p =
     (case p of (px, py, pz) \<Rightarrow>
      case getGridPosition g of (ox, oy, oz) \<Rightarrow>
        let ix = \<lfloor>(px - ox) / getGridResolution g + of_int (getWidth g) / 2\<rfloor>;
            iy = \<lfloor>(py - oy) / getGridResolution g + of_int (getHeight g) / 2\<rfloor>
        in if inGrid g (ix, iy) then Some (ix, iy) else None)"

section \<open>Classification: \<^verbatim>\<open>testNeighbourEntry\<close> and \<^verbatim>\<open>updateTraversabilityGrid\<close>\<close>

text \<open>
  The body of the two nested neighbour loops of \<^verbatim>\<open>testNeighbourEntry\<close> for the cell
  \<open>(rx, ry)\<close>: the running class \<open>cl\<close> is returned updated. A neighbour outside the grid, and
  an unmeasured neighbour whose maximum is the sentinel (\<^verbatim>\<open>continue\<close>), leave it as it is.
\<close>

definition neighbourStep ::
  "real \<Rightarrow> ElevationEntry Grid \<Rightarrow> real \<Rightarrow> int \<Rightarrow> int \<Rightarrow> Traversability \<Rightarrow> Traversability" where
  "neighbourStep maxStepSize elGrid curHeight rx ry cl =
     (if inGrid elGrid (rx, ry) then
        (let neighbourEntry = getEntry elGrid (rx, ry) in
         if getMeasurementCount neighbourEntry \<noteq> 0 then
           (if \<bar>getMedian neighbourEntry - curHeight\<bar> > maxStepSize then OBSTACLE else cl)
         else if getMaximum neighbourEntry = - DBL_MAX then cl
         else (if \<bar>getMinimum neighbourEntry - curHeight\<bar> > maxStepSize then OBSTACLE else cl))
      else cl)"

text \<open>
  \<^verbatim>\<open>testNeighbourEntry(p, elGrid, trGrid)\<close>: returns the traversability grid after the call.
  Both loops run over the offsets \<open>-1, 0, 1\<close>, so the cell \<open>p\<close> itself is among the cells
  examined.
\<close>

definition testNeighbourEntry ::
  "real \<Rightarrow> Vector2i \<Rightarrow> ElevationEntry Grid \<Rightarrow> Traversability Grid \<Rightarrow> Traversability Grid" where
  "testNeighbourEntry maxStepSize p elGrid trGrid =
     (if \<not> inGrid elGrid p then trGrid
      else
        let entry = getEntry elGrid p in
        if getMeasurementCount entry = 0 \<and> getMaximum entry = - DBL_MAX
        then setEntry trGrid p UNCLASSIFIED
        else
          let curHeight = (if getMeasurementCount entry = 0 then getMaximum entry else getMedian entry);
              cl0 = (if getMeasurementCount entry = 0 then UNKNOWN_OBSTACLE else TRAVERSABLE);
              cl = fold (\<lambda>x. fold (\<lambda>y. neighbourStep maxStepSize elGrid curHeight (fst p + x) (snd p + y))
                                   [-1, 0, 1])
                        [-1, 0, 1] cl0
          in setEntry trGrid p cl)"

text \<open>\<^verbatim>\<open>updateTraversabilityGrid\<close>: copy the grid position, then classify every cell, \<open>x\<close> outermost.\<close>

definition updateTraversabilityGrid ::
  "real \<Rightarrow> ElevationEntry Grid \<Rightarrow> Traversability Grid \<Rightarrow> Traversability Grid" where
  "updateTraversabilityGrid maxStepSize elGrid trGrid =
     fold (\<lambda>x. fold (\<lambda>y. testNeighbourEntry maxStepSize (x, y) elGrid) [0 .. getHeight elGrid - 1])
          [0 .. getWidth elGrid - 1]
          (setGridPosition (getGridPosition elGrid) trGrid)"

subsection \<open>The per-cell rule in the words of the specification\<close>

text \<open>
  Section 4.4: the height a neighbour contributes (its median if measured, nothing if its
  maximum is the sentinel, its minimum otherwise), and the rule for one cell over a given
  list of offsets. The specification takes the eight neighbours.
\<close>

definition neighbourHeight :: "ElevationEntry \<Rightarrow> real option" where
  "neighbourHeight n =
     (if getMeasurementCount n > 0 then Some (getMedian n)
      else if getMaximum n = - DBL_MAX then None
      else Some (getMinimum n))"

definition exceedsStep :: "real \<Rightarrow> ElevationEntry Grid \<Rightarrow> real \<Rightarrow> Vector2i \<Rightarrow> bool" where
  "exceedsStep maxStepSize elGrid curHeight q =
     (inGrid elGrid q \<and>
      (case neighbourHeight (getEntry elGrid q) of
         None \<Rightarrow> False
       | Some nh \<Rightarrow> \<bar>nh - curHeight\<bar> > maxStepSize))"

definition neighbours8 :: "Vector2i list" where
  "neighbours8 = [(-1, -1), (-1, 0), (-1, 1), (0, -1), (0, 1), (1, -1), (1, 0), (1, 1)]"

definition block9 :: "Vector2i list" where
  "block9 = [(-1, -1), (-1, 0), (-1, 1), (0, -1), (0, 0), (0, 1), (1, -1), (1, 0), (1, 1)]"

definition classifyRule ::
  "Vector2i list \<Rightarrow> real \<Rightarrow> ElevationEntry Grid \<Rightarrow> Vector2i \<Rightarrow> Traversability" where
  "classifyRule offsets maxStepSize elGrid p =
     (let c = getEntry elGrid p in
      if getMeasurementCount c = 0 \<and> getMaximum c = - DBL_MAX then UNCLASSIFIED
      else
        let curHeight = (if getMeasurementCount c = 0 then getMaximum c else getMedian c);
            tentative = (if getMeasurementCount c = 0 then UNKNOWN_OBSTACLE else TRAVERSABLE)
        in if list_ex (\<lambda>d. exceedsStep maxStepSize elGrid curHeight (fst p + fst d, snd p + snd d)) offsets
           then OBSTACLE else tentative)"

section \<open>Interpolation: \<^verbatim>\<open>doConservativeInterpolation\<close> and \<^verbatim>\<open>smoothElevationGrid\<close>\<close>

text \<open>
  \<^verbatim>\<open>if(source.inGrid(rx, ry)) found |= source.getEntry(rx, ry).getMeasurementCount();\<close>
  turns the flag on exactly when the cell is in the grid and has a non-zero count.
\<close>

definition measuredAt :: "ElevationEntry Grid \<Rightarrow> int \<Rightarrow> int \<Rightarrow> bool" where
  "measuredAt source rx ry =
     (inGrid source (rx, ry) \<and> getMeasurementCount (getEntry source (rx, ry)) \<noteq> 0)"

text \<open>The first loop: the rows \<open>y - 1\<close> (first flag) and \<open>y + 1\<close> (second flag).\<close>

definition rowCheck :: "ElevationEntry Grid \<Rightarrow> Vector2i \<Rightarrow> bool \<times> bool" where
  "rowCheck source p =
     fold (\<lambda>x (firstFound, secondFound).
             (firstFound \<or> measuredAt source (fst p + x) (snd p - 1),
              secondFound \<or> measuredAt source (fst p + x) (snd p + 1)))
          [-1, 0, 1] (False, False)"

text \<open>
  The second loop. \<^verbatim>\<open>rx\<close> stays \<^verbatim>\<open>p.x() - 1\<close>; the second test reads the cell
  \<^verbatim>\<open>(rx, ry)\<close> after \<^verbatim>\<open>ry = p.x() + 1\<close>, as the source has it.
\<close>

definition columnCheck :: "ElevationEntry Grid \<Rightarrow> Vector2i \<Rightarrow> bool \<times> bool" where
  "columnCheck source p =
     fold (\<lambda>y (firstFound, secondFound).
             (firstFound \<or> measuredAt source (fst p - 1) (snd p + y),
              secondFound \<or> measuredAt source (fst p - 1) (fst p + 1)))
          [-1, 0, 1] (False, False)"

definition interpolationFires :: "ElevationEntry Grid \<Rightarrow> Vector2i \<Rightarrow> bool" where
  "interpolationFires source p =
     (case rowCheck source p of (firstFound, secondFound) \<Rightarrow>
      case (if \<not> firstFound \<or> \<not> secondFound then columnCheck source p
            else (firstFound, secondFound)) of
        (firstFound, secondFound) \<Rightarrow> firstFound \<and> secondFound)"

text \<open>The body of the accumulation loops: a measured in-grid cell adds its median.\<close>

definition addNeighbour ::
  "(real list \<Rightarrow> real) \<Rightarrow> ElevationEntry Grid \<Rightarrow> int \<Rightarrow> int \<Rightarrow> ElevationEntry \<Rightarrow> ElevationEntry" where
  "addNeighbour med source rx ry e =
     (if measuredAt source rx ry
      then addHeightMeasurement med (getMedian (getEntry source (rx, ry))) e
      else e)"

text \<open>
  \<^verbatim>\<open>doConservativeInterpolation(source, target, p)\<close>: returns the target grid after the call.
  Source and target are distinct grids (the laser grid and the interpolated grid).
\<close>

definition doConservativeInterpolation ::
  "(real list \<Rightarrow> real) \<Rightarrow> ElevationEntry Grid \<Rightarrow> ElevationEntry Grid \<Rightarrow> Vector2i \<Rightarrow> ElevationEntry Grid" where
  "doConservativeInterpolation med source target p =
     (if \<not> inGrid source p then target
      else
        let target1 = setEntry target p (getEntry source p) in
        if getMeasurementCount (getEntry source p) \<noteq> 0 then target1
        else if interpolationFires source p then
          (let e = fold (\<lambda>x. fold (\<lambda>y. addNeighbour med source (fst p + x) (snd p + y)) [-1, 0, 1])
                        [-1, 0, 1] (getEntry target1 p)
           in setEntry target1 p (setInterpolatedMeasurement (getMedian e) e))
        else target1)"

definition smoothElevationGrid ::
  "(real list \<Rightarrow> real) \<Rightarrow> ElevationEntry Grid \<Rightarrow> ElevationEntry Grid \<Rightarrow> ElevationEntry Grid" where
  "smoothElevationGrid med source target =
     fold (\<lambda>x. fold (\<lambda>y t. doConservativeInterpolation med source t (x, y)) [0 .. getHeight source - 1])
          [0 .. getWidth source - 1]
          (setGridPosition (getGridPosition source) target)"

text \<open>
  The entry that \<^verbatim>\<open>doConservativeInterpolation\<close> leaves at an in-grid cell \<open>p\<close>. It is computed
  from the source grid alone, so any target grid serves to name it.
\<close>

definition interpolatedEntry ::
  "(real list \<Rightarrow> real) \<Rightarrow> ElevationEntry Grid \<Rightarrow> Vector2i \<Rightarrow> ElevationEntry" where
  "interpolatedEntry med source p = getEntry (doConservativeInterpolation med source source p) p"

subsection \<open>The firing condition in the words of the specification\<close>

text \<open>
  Section 4.3: a measured cell among the three cells of row \<open>y - 1\<close> and one among the three
  cells of row \<open>y + 1\<close>, or the same for the columns \<open>x - 1\<close> and \<open>x + 1\<close>.
\<close>

definition firesRule :: "ElevationEntry Grid \<Rightarrow> Vector2i \<Rightarrow> bool" where
  "firesRule source p =
     ((list_ex (\<lambda>d. measuredAt source (fst p + d) (snd p - 1)) [-1, 0, 1] \<and>
       list_ex (\<lambda>d. measuredAt source (fst p + d) (snd p + 1)) [-1, 0, 1]) \<or>
      (list_ex (\<lambda>d. measuredAt source (fst p - 1) (snd p + d)) [-1, 0, 1] \<and>
       list_ex (\<lambda>d. measuredAt source (fst p + 1) (snd p + d)) [-1, 0, 1]))"

text \<open>The medians of the measured in-grid cells at the given offsets from \<open>p\<close>, in list order.\<close>

definition blockMedians :: "ElevationEntry Grid \<Rightarrow> Vector2i \<Rightarrow> Vector2i list \<Rightarrow> real list" where
  "blockMedians source p ds =
     map (\<lambda>d. getMedian (getEntry source (fst p + fst d, snd p + snd d)))
         (filter (\<lambda>d. measuredAt source (fst p + fst d) (snd p + snd d)) ds)"

text \<open>The medians of the measured in-grid cells among the eight neighbours, \<open>x\<close> outermost.\<close>

definition neighbourMedians :: "ElevationEntry Grid \<Rightarrow> Vector2i \<Rightarrow> real list" where
  "neighbourMedians source p = blockMedians source p neighbours8"

section \<open>The generator and \<^verbatim>\<open>computeNewMap\<close>\<close>

text \<open>
  The members of \<^verbatim>\<open>TraversabilityMapGenerator\<close> that the functions below use. \<open>'tf\<close> is
  Eigen's \<^verbatim>\<open>Transform3d\<close>.
  The three grids of a generator have the same width and height (\<^verbatim>\<open>getGridDump\<close> asserts
  it), so an index tested on one of them is in range for the others.
\<close>

record 'tf TraversabilityMapGenerator =
  boundarySize :: real
  maxStepSize :: real
  laserGrid :: "ElevationEntry Grid"
  interpolatedGrid :: "ElevationEntry Grid"
  traversabilityGrid :: "Traversability Grid"
  lastBody2Odo :: 'tf
  lastLaser2Odo :: 'tf

definition computeNewMap ::
  "(real list \<Rightarrow> real) \<Rightarrow> 'tf TraversabilityMapGenerator \<Rightarrow> 'tf TraversabilityMapGenerator" where
  "computeNewMap med s =
     (let s1 = s\<lparr>interpolatedGrid := smoothElevationGrid med (laserGrid s) (interpolatedGrid s)\<rparr>
      in s1\<lparr>traversabilityGrid :=
               updateTraversabilityGrid (maxStepSize s1) (interpolatedGrid s1) (traversabilityGrid s1)\<rparr>)"

section \<open>Grid dump: \<^verbatim>\<open>getGridDump\<close>\<close>

text \<open>
  A \<^verbatim>\<open>double\<close> that may be \<^verbatim>\<open>std::numeric_limits<double>::infinity()\<close>, and the arrays of
  \<^verbatim>\<open>GridDump\<close> (declared in a header that is not among the sources) as functions from the
  index to the value stored there.
\<close>

datatype Double = Finite real | Infinity

record GridDump =
  gd_height :: "int \<Rightarrow> Double"
  gd_max :: "int \<Rightarrow> real"
  gd_interpolated :: "int \<Rightarrow> bool"
  gd_traversability :: "int \<Rightarrow> Traversability"
  gridPositionX :: real
  gridPositionY :: real
  gridPositionZ :: real

text \<open>The body of the loops: the four writes at index \<^verbatim>\<open>x*laserGrid.getWidth()+y\<close>.\<close>

definition dumpCell ::
  "'tf TraversabilityMapGenerator \<Rightarrow> int \<Rightarrow> int \<Rightarrow> GridDump \<Rightarrow> GridDump" where
  "dumpCell s x y gd =
     (let i = x * getWidth (laserGrid s) + y;
          e = getEntry (interpolatedGrid s) (x, y)
      in gd\<lparr>gd_height := (gd_height gd)
                 (i := if getMeasurementCount e \<noteq> 0 then Finite (getMedian e) else Infinity),
             gd_max := (gd_max gd)(i := getMaximum e),
             gd_interpolated := (gd_interpolated gd)(i := isInterpolated e),
             gd_traversability := (gd_traversability gd)(i := getEntry (traversabilityGrid s) (x, y))\<rparr>)"

text \<open>\<^verbatim>\<open>getGridDump(gd)\<close>: \<open>None\<close> when the assertion on the grid sizes fails.\<close>

definition getGridDump :: "'tf TraversabilityMapGenerator \<Rightarrow> GridDump \<Rightarrow> GridDump option" where
  "getGridDump s gd =
     (if getHeight (laserGrid s) = getHeight (interpolatedGrid s) \<and>
         getHeight (laserGrid s) = getHeight (traversabilityGrid s) \<and>
         getWidth (laserGrid s) = getWidth (interpolatedGrid s) \<and>
         getWidth (laserGrid s) = getWidth (traversabilityGrid s)
      then
        (let gd1 = fold (\<lambda>x. fold (\<lambda>y. dumpCell s x y) [0 .. getHeight (laserGrid s) - 1])
                        [0 .. getWidth (laserGrid s) - 1] gd
         in case getGridPosition (traversabilityGrid s) of
              (px, py, pz) \<Rightarrow> Some (gd1\<lparr>gridPositionX := px, gridPositionY := py, gridPositionZ := pz\<rparr>))
      else None)"

text \<open>The element of the height array that belongs to the cell \<open>(x, y)\<close>.\<close>

definition dumpedHeight :: "'tf TraversabilityMapGenerator \<Rightarrow> int \<Rightarrow> int \<Rightarrow> Double" where
  "dumpedHeight s x y =
     (if getMeasurementCount (getEntry (interpolatedGrid s) (x, y)) \<noteq> 0
      then Finite (getMedian (getEntry (interpolatedGrid s) (x, y))) else Infinity)"

section \<open>Region stamping\<close>

text \<open>
  Of \<^verbatim>\<open>base::Pose\<close> (a type of an external library) the functions use the position and the
  heading, the yaw angle that Eigen extracts from the orientation.
\<close>

record Pose =
  position :: Vector3d
  heading :: real

text \<open>The two \<^verbatim>\<open>std::runtime_error\<close>s of \<^verbatim>\<open>markUnknownInRadiusAs\<close>, by their messages.\<close>

datatype error = PoseOutOfGrid | AccessOutOfGrid

text \<open>
  A loop whose body may throw: the state reached so far is kept beside the error, as the
  members of the object keep what was written before the exception left the function.
\<close>

fun foldE :: "('a \<Rightarrow> 's \<Rightarrow> 's \<times> error option) \<Rightarrow> 'a list \<Rightarrow> 's \<Rightarrow> 's \<times> error option" where
  "foldE f [] s = (s, None)"
| "foldE f (x # xs) s =
     (case f x s of
        (s', None) \<Rightarrow> foldE f xs s'
      | (s', Some e) \<Rightarrow> (s', Some e))"

text \<open>Conversion of a \<^verbatim>\<open>double\<close> to \<^verbatim>\<open>int\<close>: truncation towards zero.\<close>

definition toInt :: "real \<Rightarrow> int" where
  "toInt r = (if 0 \<le> r then \<lfloor>r\<rfloor> else \<lceil>r\<rceil>)"

text \<open>The body of the loops of \<^verbatim>\<open>markUnknownInRadiusAs\<close> for the offset \<open>(x, y)\<close>.\<close>

definition radiusStep ::
  "(real list \<Rightarrow> real) \<Rightarrow> Traversability \<Rightarrow> real \<Rightarrow> int \<Rightarrow> int \<Rightarrow> int \<Rightarrow> int \<Rightarrow>
   'tf TraversabilityMapGenerator \<Rightarrow> 'tf TraversabilityMapGenerator \<times> error option" where
  "radiusStep med type radius posX posY x y s =
     (let xd = of_int x * getGridResolution (traversabilityGrid s);
          yd = of_int y * getGridResolution (traversabilityGrid s);
          distToRobot = sqrt (xd * xd + yd * yd)
      in if distToRobot > radius then (s, None)
         else
           let rx = posX + x; ry = posY + y in
           if \<not> inGrid (traversabilityGrid s) (rx, ry) then (s, Some AccessOutOfGrid)
           else
             let entry = getEntry (traversabilityGrid s) (rx, ry) in
             if entry = UNCLASSIFIED \<or> entry = UNKNOWN_OBSTACLE then
               (let s1 = s\<lparr>traversabilityGrid := setEntry (traversabilityGrid s) (rx, ry) type\<rparr> in
                if type = TRAVERSABLE then
                  (s1\<lparr>laserGrid := setEntry (laserGrid s1) (rx, ry)
                       (addHeightMeasurement med (getMedian (getEntry (laserGrid s1) (rx, ry)))
                          (getEntry (laserGrid s1) (rx, ry)))\<rparr>, None)
                else (s1, None))
             else (s, None))"

definition markUnknownInRadiusAs ::
  "(real list \<Rightarrow> real) \<Rightarrow> Pose \<Rightarrow> real \<Rightarrow> Traversability \<Rightarrow>
   'tf TraversabilityMapGenerator \<Rightarrow> 'tf TraversabilityMapGenerator \<times> error option" where
  "markUnknownInRadiusAs med pose radius type s =
     (case getGridPoint (traversabilityGrid s) (position pose) of
        None \<Rightarrow> (s, Some PoseOutOfGrid)
      | Some gridp \<Rightarrow>
          let posX = fst gridp; posY = snd gridp;
              radiusGrid = toInt (radius / getGridResolution (traversabilityGrid s))
          in foldE (\<lambda>x. foldE (\<lambda>y. radiusStep med type radius posX posY x y)
                                [- radiusGrid .. radiusGrid - 1])
                   [- radiusGrid .. radiusGrid - 1] s)"

text \<open>
  The values a loop \<^verbatim>\<open>for(double x = lo; x <= hi; x += 0.03)\<close> runs through. The loop ends:
  each round brings \<open>x\<close> closer to \<open>hi\<close> by 0.03.
\<close>

function frange :: "real \<Rightarrow> real \<Rightarrow> real list" where
  "frange x hi = (if x \<le> hi then x # frange (x + 3 / 100) hi else [])"
  by pat_completeness auto
termination
proof (relation "measure (\<lambda>(x, hi). nat (\<lfloor>(hi - x) * 100 / 3\<rfloor> + 1))")
  show "wf (measure (\<lambda>(x, hi). nat (\<lfloor>(hi - x) * 100 / 3\<rfloor> + 1)))"
    by simp
next
  fix x hi :: real
  assume le: "x \<le> hi"
  have step: "(hi - (x + 3 / 100)) * 100 / 3 = (hi - x) * 100 / 3 - 1"
    by (simp add: field_simps)
  have "0 \<le> (hi - x) * 100 / 3"
    using le by simp
  then have nonneg: "0 \<le> \<lfloor>(hi - x) * 100 / 3\<rfloor>"
    by simp
  have "\<lfloor>(hi - (x + 3 / 100)) * 100 / 3\<rfloor> = \<lfloor>(hi - x) * 100 / 3\<rfloor> - 1"
    unfolding step by simp
  with nonneg show "((x + 3 / 100, hi), (x, hi)) \<in> measure (\<lambda>(x, hi). nat (\<lfloor>(hi - x) * 100 / 3\<rfloor> + 1))"
    by simp
qed

declare frange.simps [simp del]

text \<open>\<^verbatim>\<open>pose.position + rot * Vector3d(x, y, 0)\<close> with \<open>rot\<close> the rotation by the heading about Z.\<close>

definition rectPoint :: "Pose \<Rightarrow> real \<Rightarrow> real \<Rightarrow> Vector3d" where
  "rectPoint pose x y =
     (case position pose of (px, py, pz) \<Rightarrow>
        (px + (x * cos (heading pose) - y * sin (heading pose)),
         py + (x * sin (heading pose) + y * cos (heading pose)),
         pz))"

text \<open>
  The body of the loops of \<^verbatim>\<open>markUnknownInRectangeAs\<close> for the local point \<open>(x, y)\<close>. The
  \<^verbatim>\<open>else\<close> branch only prints a message.
\<close>

definition rectStep ::
  "(real list \<Rightarrow> real) \<Rightarrow> Pose \<Rightarrow> Traversability \<Rightarrow> real \<Rightarrow> real \<Rightarrow>
   'tf TraversabilityMapGenerator \<Rightarrow> 'tf TraversabilityMapGenerator" where
  "rectStep med pose type x y s =
     (case getGridPoint (laserGrid s) (rectPoint pose x y) of
        Some p_g \<Rightarrow>
          let entry = getEntry (traversabilityGrid s) p_g in
          if entry = UNCLASSIFIED \<or> entry = UNKNOWN_OBSTACLE then
            (let s1 = s\<lparr>traversabilityGrid := setEntry (traversabilityGrid s) p_g type\<rparr> in
             if type = TRAVERSABLE then
               (if getMeasurementCount (getEntry (laserGrid s1) p_g) = 0
                then s1\<lparr>laserGrid := setEntry (laserGrid s1) p_g
                          (addHeightMeasurement med 0 (getEntry (laserGrid s1) p_g))\<rparr>
                else s1)
             else s1)
          else s
      | None \<Rightarrow> s)"

definition markUnknownInRectangeAs ::
  "(real list \<Rightarrow> real) \<Rightarrow> Pose \<Rightarrow> real \<Rightarrow> real \<Rightarrow> real \<Rightarrow> Traversability \<Rightarrow>
   'tf TraversabilityMapGenerator \<Rightarrow> 'tf TraversabilityMapGenerator" where
  "markUnknownInRectangeAs med pose width height forwardOffset type s =
     fold (\<lambda>x. fold (\<lambda>y. rectStep med pose type x y)
                     (frange (- height / 2) (height / 2 + forwardOffset)))
          (frange (- width / 2) (width / 2)) s"

subsection \<open>The cells of the rectangle\<close>

text \<open>
  The cells of the laser grid that hold a sample point of the loops: the local points
  \<open>(x, y)\<close> with \<open>x\<close> from \<open>-width/2\<close> to \<open>width/2\<close> and \<open>y\<close> from \<open>-height/2\<close> to
  \<open>height/2 + forwardOffset\<close> in steps of 0.03, turned by the heading and moved to the pose.
\<close>

definition sampledCells :: "'a Grid \<Rightarrow> Pose \<Rightarrow> real \<Rightarrow> real \<Rightarrow> real \<Rightarrow> Vector2i set" where
  "sampledCells g pose width height forwardOffset =
     set (List.map_filter (\<lambda>(x, y). getGridPoint g (rectPoint pose x y))
            (List.product (frange (- width / 2) (width / 2))
                          (frange (- height / 2) (height / 2 + forwardOffset))))"


definition unknownClass :: "Traversability \<Rightarrow> bool" where
  "unknownClass c = (c = UNCLASSIFIED \<or> c = UNKNOWN_OBSTACLE)"

text \<open>
  The entries of the traversability grid and of the laser grid once the cells \<open>V\<close> have been
  stamped, given the entries \<open>T\<close> and \<open>L\<close> before the call, and the generator with both.
\<close>

definition stampT :: "Traversability \<Rightarrow> Vector2i set \<Rightarrow> (Vector2i \<Rightarrow> Traversability) \<Rightarrow> Vector2i \<Rightarrow> Traversability" where
  "stampT type V T = (\<lambda>c. if c \<in> V \<and> unknownClass (T c) then type else T c)"

definition stampL :: "(real list \<Rightarrow> real) \<Rightarrow> Traversability \<Rightarrow> Vector2i set \<Rightarrow> (Vector2i \<Rightarrow> Traversability) \<Rightarrow>
    (Vector2i \<Rightarrow> ElevationEntry) \<Rightarrow> Vector2i \<Rightarrow> ElevationEntry" where
  "stampL med type V T L =
     (\<lambda>c. if c \<in> V \<and> unknownClass (T c) \<and> type = TRAVERSABLE \<and> getMeasurementCount (L c) = 0
          then addHeightMeasurement med 0 (L c) else L c)"

definition rectAfter ::
  "(real list \<Rightarrow> real) \<Rightarrow> Traversability \<Rightarrow> Vector2i set \<Rightarrow>
   'tf TraversabilityMapGenerator \<Rightarrow> 'tf TraversabilityMapGenerator" where
  "rectAfter med type V s =
     s\<lparr>traversabilityGrid := (traversabilityGrid s)
          \<lparr>getEntry := stampT type V (getEntry (traversabilityGrid s))\<rparr>,
       laserGrid := (laserGrid s)
          \<lparr>getEntry := stampL med type V (getEntry (traversabilityGrid s)) (getEntry (laserGrid s))\<rparr>\<rparr>"

section \<open>Scan ingest: \<^verbatim>\<open>addLaserScan\<close>\<close>













text \<open>
  Modelled from the spec: \<^verbatim>\<open>ElevationGrid::addLaserScan\<close> (not among the sources).
  Section 4.3: for each point, if it is in the grid, append its \<open>z\<close> to that cell.
\<close>

definition ElevationGrid_addLaserScan ::
  "(real list \<Rightarrow> real) \<Rightarrow> Vector3d list \<Rightarrow> ElevationEntry Grid \<Rightarrow> ElevationEntry Grid" where
  "ElevationGrid_addLaserScan med points g =
     fold (\<lambda>p g. case getGridPoint g p of
                    Some c \<Rightarrow> setEntry g c (addHeightMeasurement med (snd (snd p)) (getEntry g c))
                  | None \<Rightarrow> g)
          points g"







section \<open>Example inputs\<close>

text \<open>
  Small concrete grids and cells on which the functions above are evaluated: a grid of
  resolution 1 centred at the world origin, an unmeasured cell with a recorded minimum and
  maximum, and a cell with one measurement.
\<close>

definition gridOf :: "int \<Rightarrow> int \<Rightarrow> (Vector2i \<Rightarrow> 'a) \<Rightarrow> 'a Grid" where
  "gridOf w h f =
     \<lparr>getWidth = w, getHeight = h, getGridResolution = 1, getGridPosition = (0, 0, 0), getEntry = f\<rparr>"

definition unknownEntry :: "real \<Rightarrow> real \<Rightarrow> ElevationEntry" where
  "unknownEntry lo hi =
     \<lparr>heights = [], getMinimum = lo, getMaximum = hi, getMedian = lo, isInterpolated = False\<rparr>"

definition measuredEntry :: "real \<Rightarrow> ElevationEntry" where
  "measuredEntry h = addHeightMeasurement median_of h emptyEntry"

text \<open>
  Three 3 x 3 elevation grids around the unmeasured cell \<open>(1, 1)\<close>: measurements above and
  below it; measurements left and right of it; measurements in the left column only, at
  \<open>(0, 1)\<close> and \<open>(0, 2)\<close>.
\<close>

definition rowsGrid :: "ElevationEntry Grid" where
  "rowsGrid =
     gridOf 3 3 (\<lambda>p. if p = (1, 0) then measuredEntry 1
                      else if p = (1, 2) then measuredEntry 3 else emptyEntry)"

definition columnsGrid :: "ElevationEntry Grid" where
  "columnsGrid = gridOf 3 3 (\<lambda>p. if p = (0, 1) \<or> p = (2, 1) then measuredEntry 1 else emptyEntry)"

definition cornerGrid :: "ElevationEntry Grid" where
  "cornerGrid =
     gridOf 3 3 (\<lambda>p. if p = (0, 1) then measuredEntry 1
                      else if p = (0, 2) then measuredEntry 3 else emptyEntry)"

text \<open>
  Generators whose grids are empty and unclassified, poses for the stamps, and a generator
  with 2 x 3 grids whose only measured cell is \<open>(0, 2)\<close>, with a blank dump.
\<close>

definition stampState :: "int \<Rightarrow> int \<Rightarrow> unit TraversabilityMapGenerator" where
  "stampState w h =
     \<lparr>boundarySize = 0, maxStepSize = 1 / 5,
      laserGrid = gridOf w h (\<lambda>_. emptyEntry),
      interpolatedGrid = gridOf w h (\<lambda>_. emptyEntry),
      traversabilityGrid = gridOf w h (\<lambda>_. UNCLASSIFIED),
      lastBody2Odo = (), lastLaser2Odo = ()\<rparr>"


definition outsidePose :: Pose where
  "outsidePose = \<lparr>position = (- 103 / 100, 0, 0), heading = 0\<rparr>"

definition dumpState :: "unit TraversabilityMapGenerator" where
  "dumpState =
     \<lparr>boundarySize = 0, maxStepSize = 1 / 5,
      laserGrid = gridOf 2 3 (\<lambda>p. if p = (0, 2) then measuredEntry 7 else emptyEntry),
      interpolatedGrid = gridOf 2 3 (\<lambda>p. if p = (0, 2) then measuredEntry 7 else emptyEntry),
      traversabilityGrid = gridOf 2 3 (\<lambda>p. if p = (0, 2) then TRAVERSABLE else UNCLASSIFIED),
      lastBody2Odo = (), lastLaser2Odo = ()\<rparr>"

definition blankDump :: GridDump where
  "blankDump =
     \<lparr>gd_height = (\<lambda>_. Infinity), gd_max = (\<lambda>_. 0), gd_interpolated = (\<lambda>_. False),
      gd_traversability = (\<lambda>_. UNCLASSIFIED),
      gridPositionX = 0, gridPositionY = 0, gridPositionZ = 0\<rparr>"



section \<open>Properties of the classification\<close>

lemma DBL_MAX_pos: "0 < DBL_MAX"
  by (simp add: DBL_MAX_def)

lemma neighbourStep_exceeds:
  "neighbourStep ms el cur rx ry cl = (if exceedsStep ms el cur (rx, ry) then OBSTACLE else cl)"
  by (simp add: neighbourStep_def exceedsStep_def neighbourHeight_def Let_def)

lemma testNeighbourEntry_rule:
  "testNeighbourEntry ms p el tr =
     (if inGrid el p then setEntry tr p (classifyRule block9 ms el p) else tr)"
  by (simp add: testNeighbourEntry_def classifyRule_def block9_def neighbourStep_exceeds Let_def)

lemma testNeighbourEntry_entry:
  "getEntry (testNeighbourEntry ms p el tr) q =
     (if q = p \<and> inGrid el p then classifyRule block9 ms el p else getEntry tr q)"
  by (simp add: testNeighbourEntry_rule setEntry_def)

lemma classify_column_entry:
  "getEntry (fold (\<lambda>y. testNeighbourEntry ms (x, y) el) ys tr) q =
     (if fst q = x \<and> snd q \<in> set ys \<and> inGrid el q then classifyRule block9 ms el q
      else getEntry tr q)"
  by (induction ys arbitrary: tr) (auto simp: testNeighbourEntry_entry)

lemma classify_columns_entry:
  "getEntry (fold (\<lambda>x. fold (\<lambda>y. testNeighbourEntry ms (x, y) el) ys) xs tr) q =
     (if fst q \<in> set xs \<and> snd q \<in> set ys \<and> inGrid el q then classifyRule block9 ms el q
      else getEntry tr q)"
  by (induction xs arbitrary: tr) (auto simp: classify_column_entry)

lemma updateTraversabilityGrid_entry:
  "getEntry (updateTraversabilityGrid ms el tr) q =
     (if inGrid el q then classifyRule block9 ms el q else getEntry tr q)"
  by (auto simp: updateTraversabilityGrid_def classify_columns_entry inGrid_def setGridPosition_def)

lemma classifyRule_measured:
  "getMeasurementCount (getEntry el p) > 0 \<Longrightarrow>
     classifyRule offs ms el p = TRAVERSABLE \<or> classifyRule offs ms el p = OBSTACLE"
  by (simp add: classifyRule_def Let_def)

text \<open>
  C1 (as amended). For a cell \<open>p\<close> of the elevation grid, \<^verbatim>\<open>testNeighbourEntry\<close> writes into the
  traversability grid at \<open>p\<close>, and nowhere else, the class of the per-cell rule taken over the
  3 x 3 block of offsets \<open>-1, 0, 1\<close> around \<open>p\<close>, the cell \<open>p\<close> itself included: UNCLASSIFIED for
  count 0 and maximum equal to the sentinel; otherwise the height is the maximum (count 0,
  tentatively UNKNOWN_OBSTACLE) or the median (measured, tentatively TRAVERSABLE), and the
  class is OBSTACLE as soon as one in-grid cell of the block, with its median if measured,
  skipped if its maximum is the sentinel and with its minimum otherwise, differs from that
  height by more than \<open>maxStepSize\<close>.
\<close>

theorem C1_classification_over_block:
  "inGrid elGrid p \<Longrightarrow>
     getEntry (testNeighbourEntry maxStep p elGrid trGrid) p = classifyRule block9 maxStep elGrid p \<and>
     (\<forall>q. q \<noteq> p \<longrightarrow> getEntry (testNeighbourEntry maxStep p elGrid trGrid) q = getEntry trGrid q)"
  by (simp add: testNeighbourEntry_entry)

theorem C1_classification_over_block_witness:
  "inGrid (gridOf 1 1 (\<lambda>_. unknownEntry 0 5)) (0, 0) \<and>
   getEntry (testNeighbourEntry (1/5) (0, 0) (gridOf 1 1 (\<lambda>_. unknownEntry 0 5))
               (gridOf 1 1 (\<lambda>_. UNCLASSIFIED))) (0, 0) = OBSTACLE \<and>
   getEntry (testNeighbourEntry (1/5) (0, 0) (gridOf 1 1 (\<lambda>_. unknownEntry 0 5))
               (gridOf 1 1 (\<lambda>_. UNCLASSIFIED))) (3, 4) = UNCLASSIFIED"
proof -
  have a: "inGrid (gridOf 1 1 (\<lambda>_. unknownEntry 0 5)) (0, 0)"
    by (simp add: inGrid_def gridOf_def)
  have r: "classifyRule block9 (1/5) (gridOf 1 1 (\<lambda>_. unknownEntry 0 5)) (0, 0) = OBSTACLE"
    using DBL_MAX_pos
    by (simp add: classifyRule_def block9_def exceedsStep_def neighbourHeight_def inGrid_def
        gridOf_def unknownEntry_def getMeasurementCount_def)
  have g: "getEntry (gridOf 1 1 (\<lambda>_. UNCLASSIFIED)) (3, 4) = UNCLASSIFIED"
    by (simp add: gridOf_def)
  from C1_classification_over_block[OF a, of "1/5" "gridOf 1 1 (\<lambda>_. UNCLASSIFIED)"] a r g
  show ?thesis by simp
qed

text \<open>
  C1 (as stated) fails: on a 1 x 1 grid whose only cell is unmeasured with minimum 0 and
  maximum 5, and with step size 0.2, the code compares the cell with itself and writes
  OBSTACLE, while the rule over the eight neighbours gives UNKNOWN_OBSTACLE.
\<close>

theorem C1_eight_neighbours_counterexample:
  "getEntry (testNeighbourEntry (1/5) (0, 0) (gridOf 1 1 (\<lambda>_. unknownEntry 0 5))
               (gridOf 1 1 (\<lambda>_. UNCLASSIFIED))) (0, 0) = OBSTACLE \<and>
   classifyRule neighbours8 (1/5) (gridOf 1 1 (\<lambda>_. unknownEntry 0 5)) (0, 0) = UNKNOWN_OBSTACLE"
  using DBL_MAX_pos
  by (simp add: testNeighbourEntry_rule setEntry_def classifyRule_def block9_def neighbours8_def
      exceedsStep_def neighbourHeight_def inGrid_def gridOf_def unknownEntry_def
      getMeasurementCount_def)

text \<open>
  C8. After \<^verbatim>\<open>updateTraversabilityGrid\<close>, every cell of the elevation grid whose entry has a
  measurement count greater than 0 is TRAVERSABLE or OBSTACLE in the traversability grid,
  whatever its neighbours are.
\<close>

theorem C8_measured_cell_traversable_or_obstacle:
  "inGrid elGrid (x, y) \<Longrightarrow> getMeasurementCount (getEntry elGrid (x, y)) > 0 \<Longrightarrow>
     getEntry (updateTraversabilityGrid maxStep elGrid trGrid) (x, y) = TRAVERSABLE \<or>
     getEntry (updateTraversabilityGrid maxStep elGrid trGrid) (x, y) = OBSTACLE"
  using classifyRule_measured[of elGrid "(x, y)" block9 maxStep]
  by (simp add: updateTraversabilityGrid_entry)

theorem C8_measured_cell_traversable_or_obstacle_witness:
  "inGrid (gridOf 2 2 (\<lambda>_. measuredEntry 1)) (1, 0) \<and>
   getMeasurementCount (getEntry (gridOf 2 2 (\<lambda>_. measuredEntry 1)) (1, 0)) > 0 \<and>
   (getEntry (updateTraversabilityGrid (1/5) (gridOf 2 2 (\<lambda>_. measuredEntry 1))
                (gridOf 2 2 (\<lambda>_. UNCLASSIFIED))) (1, 0) = TRAVERSABLE \<or>
    getEntry (updateTraversabilityGrid (1/5) (gridOf 2 2 (\<lambda>_. measuredEntry 1))
                (gridOf 2 2 (\<lambda>_. UNCLASSIFIED))) (1, 0) = OBSTACLE)"
proof -
  have a: "inGrid (gridOf 2 2 (\<lambda>_. measuredEntry 1)) (1, 0)"
    by (simp add: inGrid_def gridOf_def)
  have b: "getMeasurementCount (getEntry (gridOf 2 2 (\<lambda>_. measuredEntry 1)) (1, 0)) > 0"
    by (simp add: gridOf_def measuredEntry_def addHeightMeasurement_def getMeasurementCount_def)
  show ?thesis
    using a b C8_measured_cell_traversable_or_obstacle[OF a b] by blast
qed

section \<open>Grid positions after \<^verbatim>\<open>computeNewMap\<close>\<close>

lemma setEntry_position: "getGridPosition (setEntry g p v) = getGridPosition g"
  by (simp add: setEntry_def)

lemma testNeighbourEntry_position:
  "getGridPosition (testNeighbourEntry ms p el tr) = getGridPosition tr"
  by (simp add: testNeighbourEntry_rule setEntry_position)

lemma doConservativeInterpolation_position:
  "getGridPosition (doConservativeInterpolation med src tgt p) = getGridPosition tgt"
  by (simp add: doConservativeInterpolation_def setEntry_position Let_def)

lemma nested_loops_position:
  assumes "\<And>x y g. getGridPosition (f x y g) = getGridPosition g"
  shows "getGridPosition (fold (\<lambda>x. fold (f x) ys) xs g) = getGridPosition g"
proof -
  have inner: "getGridPosition (fold (f x) zs h) = getGridPosition h" for x zs h
    by (induction zs arbitrary: h) (simp_all add: assms)
  show ?thesis
    by (induction xs arbitrary: g) (simp_all add: inner)
qed

lemma updateTraversabilityGrid_position:
  "getGridPosition (updateTraversabilityGrid ms el tr) = getGridPosition el"
  unfolding updateTraversabilityGrid_def
  by (subst nested_loops_position) (simp_all add: testNeighbourEntry_position setGridPosition_def)

lemma smoothElevationGrid_position:
  "getGridPosition (smoothElevationGrid med src tgt) = getGridPosition src"
  unfolding smoothElevationGrid_def
  by (subst nested_loops_position) (simp_all add: doConservativeInterpolation_position setGridPosition_def)

text \<open>
  C9. After \<^verbatim>\<open>computeNewMap\<close> the interpolated grid and the traversability grid carry the grid
  position of the laser grid (which the call leaves as it was): each pass copies the position
  of its source grid before it writes cells, and writing cells does not move a grid.
\<close>

theorem C9_positions_agree_after_computeNewMap:
  "getGridPosition (interpolatedGrid (computeNewMap med s)) =
     getGridPosition (laserGrid (computeNewMap med s)) \<and>
   getGridPosition (traversabilityGrid (computeNewMap med s)) =
     getGridPosition (laserGrid (computeNewMap med s)) \<and>
   laserGrid (computeNewMap med s) = laserGrid s"
  by (simp add: computeNewMap_def Let_def updateTraversabilityGrid_position
      smoothElevationGrid_position)

section \<open>Properties of the interpolation\<close>

lemmas example_defs = gridOf_def emptyEntry_def measuredEntry_def addHeightMeasurement_def
  getMeasurementCount_def inGrid_def measuredAt_def median_of_def

lemma accumulate_median:
  "getMedian (fold (\<lambda>d. addNeighbour med src (fst p + fst d) (snd p + snd d)) ds e) =
     (if blockMedians src p ds = [] then getMedian e else med (heights e @ blockMedians src p ds))"
proof (induction ds arbitrary: e)
  case Nil
  then show ?case by (simp add: blockMedians_def)
next
  case (Cons d ds)
  show ?case
    by (simp add: Cons.IH) (simp add: blockMedians_def addNeighbour_def addHeightMeasurement_def)
qed

lemma nested_block9:
  "fold (\<lambda>x. fold (\<lambda>y. addNeighbour med src (fst p + x) (snd p + y)) [-1, 0, 1]) [-1, 0, 1] e =
   fold (\<lambda>d. addNeighbour med src (fst p + fst d) (snd p + snd d)) block9 e"
  by (simp add: block9_def)

lemma block9_unmeasured_centre:
  "\<not> measuredAt src (fst p) (snd p) \<Longrightarrow> blockMedians src p block9 = neighbourMedians src p"
  by (simp add: blockMedians_def neighbourMedians_def block9_def neighbours8_def)

lemma fires_has_neighbour:
  "interpolationFires src p \<Longrightarrow> neighbourMedians src p \<noteq> []"
  by (auto simp: interpolationFires_def rowCheck_def columnCheck_def neighbourMedians_def
      blockMedians_def neighbours8_def split: if_splits)

lemma doConservativeInterpolation_fired:
  assumes "inGrid src p" "getMeasurementCount (getEntry src p) = 0" "interpolationFires src p"
  shows "getEntry (doConservativeInterpolation med src tgt p) p =
     setInterpolatedMeasurement
       (getMedian (fold (\<lambda>d. addNeighbour med src (fst p + fst d) (snd p + snd d)) block9
                     (getEntry src p)))
       (fold (\<lambda>d. addNeighbour med src (fst p + fst d) (snd p + snd d)) block9 (getEntry src p))"
  unfolding doConservativeInterpolation_def nested_block9
  using assms by (simp add: Let_def setEntry_def)

lemma doConservativeInterpolation_median:
  assumes "inGrid src p" "getMeasurementCount (getEntry src p) = 0" "interpolationFires src p"
  shows "getMedian (getEntry (doConservativeInterpolation med src tgt p) p) =
           med (neighbourMedians src p)"
    and "isInterpolated (getEntry (doConservativeInterpolation med src tgt p) p)"
proof -
  have c: "\<not> measuredAt src (fst p) (snd p)"
    using assms(2) by (simp add: measuredAt_def)
  have h: "heights (getEntry src p) = []"
    using assms(2) by (simp add: getMeasurementCount_def)
  note ne = fires_has_neighbour[OF assms(3)]
  show "getMedian (getEntry (doConservativeInterpolation med src tgt p) p) =
          med (neighbourMedians src p)"
    using ne
    by (simp add: doConservativeInterpolation_fired[OF assms] setInterpolatedMeasurement_def
        accumulate_median block9_unmeasured_centre[OF c] h)
  show "isInterpolated (getEntry (doConservativeInterpolation med src tgt p) p)"
    by (simp add: doConservativeInterpolation_fired[OF assms] setInterpolatedMeasurement_def)
qed

lemma doConservativeInterpolation_entry:
  "getEntry (doConservativeInterpolation med src tgt p) q =
     (if q = p \<and> inGrid src p then interpolatedEntry med src p else getEntry tgt q)"
  by (simp add: interpolatedEntry_def doConservativeInterpolation_def setEntry_def Let_def)

lemma smooth_column_entry:
  "getEntry (fold (\<lambda>y t. doConservativeInterpolation med src t (x, y)) ys tgt) q =
     (if fst q = x \<and> snd q \<in> set ys \<and> inGrid src q
      then interpolatedEntry med src q else getEntry tgt q)"
  by (induction ys arbitrary: tgt) (auto simp: doConservativeInterpolation_entry)

lemma smooth_columns_entry:
  "getEntry (fold (\<lambda>x. fold (\<lambda>y t. doConservativeInterpolation med src t (x, y)) ys) xs tgt) q =
     (if fst q \<in> set xs \<and> snd q \<in> set ys \<and> inGrid src q
      then interpolatedEntry med src q else getEntry tgt q)"
  by (induction xs arbitrary: tgt) (auto simp: smooth_column_entry)

lemma smoothElevationGrid_entry:
  "getEntry (smoothElevationGrid med src tgt) q =
     (if inGrid src q then interpolatedEntry med src q else getEntry tgt q)"
  by (auto simp: smoothElevationGrid_def smooth_columns_entry inGrid_def setGridPosition_def)

text \<open>
  C2. The code evaluated at two inputs. On \<open>columnsGrid\<close> the cells left and right of the
  unmeasured cell \<open>(1, 1)\<close> are measured, so the condition of the claim holds, but the code's
  check does not fire and smoothing leaves the cell without data. On \<open>cornerGrid\<close> only the
  left column is measured, so the condition of the claim fails, but the code's check fires
  (its second column test reads the cell \<open>(x - 1, x + 1)\<close>) and the cell is interpolated.
\<close>

theorem C2_column_check_reads_wrong_cell:
  "firesRule columnsGrid (1, 1) \<and> \<not> interpolationFires columnsGrid (1, 1) \<and>
   getEntry (smoothElevationGrid median_of columnsGrid (gridOf 3 3 (\<lambda>_. emptyEntry))) (1, 1) = emptyEntry \<and>
   \<not> firesRule cornerGrid (1, 1) \<and> interpolationFires cornerGrid (1, 1) \<and>
   isInterpolated (getEntry (smoothElevationGrid median_of cornerGrid (gridOf 3 3 (\<lambda>_. emptyEntry))) (1, 1))"
proof -
  have first: "firesRule columnsGrid (1, 1) \<and> \<not> interpolationFires columnsGrid (1, 1) \<and>
     getEntry (smoothElevationGrid median_of columnsGrid (gridOf 3 3 (\<lambda>_. emptyEntry))) (1, 1) = emptyEntry"
    by (simp add: smoothElevationGrid_entry interpolatedEntry_def doConservativeInterpolation_def
        setEntry_def firesRule_def interpolationFires_def rowCheck_def columnCheck_def
        columnsGrid_def example_defs)
  have a: "inGrid cornerGrid (1, 1)"
    by (simp add: cornerGrid_def example_defs)
  have b: "getMeasurementCount (getEntry cornerGrid (1, 1)) = 0"
    by (simp add: cornerGrid_def example_defs)
  have c: "interpolationFires cornerGrid (1, 1)"
    by (simp add: interpolationFires_def rowCheck_def columnCheck_def cornerGrid_def example_defs)
  have n: "\<not> firesRule cornerGrid (1, 1)"
    by (simp add: firesRule_def cornerGrid_def example_defs)
  from doConservativeInterpolation_median(2)[OF a b c, of median_of] first c n show ?thesis
    by (simp add: smoothElevationGrid_entry interpolatedEntry_def a)
qed

theorem C2_column_check_reads_wrong_cell_witness:
  "firesRule columnsGrid (1, 1) \<noteq> interpolationFires columnsGrid (1, 1) \<and>
   firesRule cornerGrid (1, 1) \<noteq> interpolationFires cornerGrid (1, 1)"
  using C2_column_check_reads_wrong_cell by blast

text \<open>
  C3. For every unmeasured cell of the source grid on which the interpolation check of the
  code fires, the cell of the smoothed grid has as its median the median estimate of the
  medians of all measured in-grid cells among its eight neighbours, and is flagged
  interpolated.
\<close>

theorem C3_interpolated_median_of_neighbour_medians:
  assumes "inGrid source p"
    and "getMeasurementCount (getEntry source p) = 0"
    and "interpolationFires source p"
  shows "getMedian (getEntry (smoothElevationGrid med source target) p) =
           med (neighbourMedians source p) \<and>
         isInterpolated (getEntry (smoothElevationGrid med source target) p)"
  using assms doConservativeInterpolation_median[OF assms, of med source]
  by (simp add: smoothElevationGrid_entry interpolatedEntry_def)

theorem C3_interpolated_median_of_neighbour_medians_witness:
  "inGrid rowsGrid (1, 1) \<and> getMeasurementCount (getEntry rowsGrid (1, 1)) = 0 \<and>
   interpolationFires rowsGrid (1, 1) \<and>
   getMedian (getEntry (smoothElevationGrid median_of rowsGrid (gridOf 3 3 (\<lambda>_. emptyEntry))) (1, 1)) = 3 \<and>
   isInterpolated (getEntry (smoothElevationGrid median_of rowsGrid (gridOf 3 3 (\<lambda>_. emptyEntry))) (1, 1))"
proof -
  have a: "inGrid rowsGrid (1, 1)"
    by (simp add: rowsGrid_def example_defs)
  have b: "getMeasurementCount (getEntry rowsGrid (1, 1)) = 0"
    by (simp add: rowsGrid_def example_defs)
  have c: "interpolationFires rowsGrid (1, 1)"
    by (simp add: interpolationFires_def rowCheck_def columnCheck_def rowsGrid_def example_defs)
  have m: "median_of (neighbourMedians rowsGrid (1, 1)) = 3"
    by (simp add: neighbourMedians_def blockMedians_def neighbours8_def rowsGrid_def example_defs)
  from C3_interpolated_median_of_neighbour_medians[OF a b c, of median_of "gridOf 3 3 (\<lambda>_. emptyEntry)"]
    a b c m
  show ?thesis by simp
qed

section \<open>Properties of the region stamps\<close>

lemma stampT_empty: "stampT type {} T = T"
  by (simp add: stampT_def)

lemma stampL_empty: "stampL med type {} T L = L"
  by (simp add: stampL_def)

lemma rectAfter_empty: "rectAfter med type {} s = s"
  by (simp add: rectAfter_def stampT_empty stampL_empty)

lemma stampT_step:
  "(stampT type V T)(c := if unknownClass (stampT type V T c) then type else stampT type V T c) =
     stampT type (insert c V) T"
  by (auto simp: stampT_def fun_eq_iff)

lemma stampL_step:
  "(stampL med type V T L)
     (c := if unknownClass (stampT type V T c) \<and> type = TRAVERSABLE \<and>
              getMeasurementCount (stampL med type V T L c) = 0
           then addHeightMeasurement med 0 (stampL med type V T L c)
           else stampL med type V T L c) =
     stampL med type (insert c V) T L"
  by (auto simp: stampT_def stampL_def fun_eq_iff unknownClass_def)

lemma getGridPoint_cells: "getGridPoint (g\<lparr>getEntry := f\<rparr>) p = getGridPoint g p"
  by (simp add: getGridPoint_def inGrid_def)

lemma rectStep_None:
  "getGridPoint (laserGrid s) (rectPoint pose x y) = None \<Longrightarrow> rectStep med pose type x y s = s"
  by (simp add: rectStep_def)

lemma rectStep_Some:
  "getGridPoint (laserGrid s) (rectPoint pose x y) = Some c \<Longrightarrow>
   rectStep med pose type x y s =
     s\<lparr>traversabilityGrid := (traversabilityGrid s)
          \<lparr>getEntry := (getEntry (traversabilityGrid s))
             (c := if unknownClass (getEntry (traversabilityGrid s) c) then type
                   else getEntry (traversabilityGrid s) c)\<rparr>,
       laserGrid := (laserGrid s)
          \<lparr>getEntry := (getEntry (laserGrid s))
             (c := if unknownClass (getEntry (traversabilityGrid s) c) \<and> type = TRAVERSABLE \<and>
                      getMeasurementCount (getEntry (laserGrid s) c) = 0
                   then addHeightMeasurement med 0 (getEntry (laserGrid s) c)
                   else getEntry (laserGrid s) c)\<rparr>\<rparr>"
  by (simp add: rectStep_def Let_def setEntry_def unknownClass_def)

lemma rectAfter_trav:
  "getEntry (traversabilityGrid (rectAfter med type V s)) = stampT type V (getEntry (traversabilityGrid s))"
  by (simp add: rectAfter_def)

lemma rectAfter_laser:
  "getEntry (laserGrid (rectAfter med type V s)) =
     stampL med type V (getEntry (traversabilityGrid s)) (getEntry (laserGrid s))"
  by (simp add: rectAfter_def)

lemma rectStep_rectAfter:
  "rectStep med pose type x y (rectAfter med type V s) =
     rectAfter med type (V \<union> set_option (getGridPoint (laserGrid s) (rectPoint pose x y))) s"
proof (cases "getGridPoint (laserGrid s) (rectPoint pose x y)")
  case None
  then have "getGridPoint (laserGrid (rectAfter med type V s)) (rectPoint pose x y) = None"
    by (simp add: rectAfter_def getGridPoint_cells)
  from rectStep_None[OF this] None show ?thesis by simp
next
  case (Some c)
  then have "getGridPoint (laserGrid (rectAfter med type V s)) (rectPoint pose x y) = Some c"
    by (simp add: rectAfter_def getGridPoint_cells)
  note step = rectStep_Some[OF this, of med type, unfolded rectAfter_trav rectAfter_laser
      stampT_step stampL_step]
  show ?thesis
    by (simp add: step Some) (simp add: rectAfter_def)
qed

lemma rect_points_rectAfter:
  "fold (\<lambda>(x, y). rectStep med pose type x y) pts (rectAfter med type V s) =
     rectAfter med type
       (V \<union> set (List.map_filter (\<lambda>(x, y). getGridPoint (laserGrid s) (rectPoint pose x y)) pts)) s"
proof (induction pts arbitrary: V)
  case Nil
  then show ?case by (simp add: List.map_filter_simps)
next
  case (Cons a pts)
  obtain x y where a: "a = (x, y)" by (cases a)
  show ?case
    by (cases "getGridPoint (laserGrid s) (rectPoint pose x y)")
       (simp_all add: a rectStep_rectAfter Cons.IH List.map_filter_simps)
qed

lemma fold_row: "fold (\<lambda>(x, y). f x y) (map (Pair x) ys) s = fold (f x) ys s"
  by (induction ys arbitrary: s) simp_all

lemma fold_product: "fold (\<lambda>x. fold (f x) ys) xs s = fold (\<lambda>(x, y). f x y) (List.product xs ys) s"
  by (induction xs arbitrary: s) (simp_all add: fold_row)

lemma rect_char:
  "markUnknownInRectangeAs med pose width height forwardOffset type s =
     rectAfter med type (sampledCells (laserGrid s) pose width height forwardOffset) s"
  using rect_points_rectAfter[of med pose type _ "{}" s]
  by (simp add: markUnknownInRectangeAs_def fold_product sampledCells_def rectAfter_empty)

lemma frange_set:
  "set (frange lo hi) = {x. \<exists>k::nat. x = lo + real k * (3 / 100) \<and> x \<le> hi}"
proof (induction lo hi rule: frange.induct)
  case (1 x hi)
  show ?case
  proof (cases "x \<le> hi")
    case False
    have "\<not> x + real k * (3 / 100) \<le> hi" for k :: nat
    proof -
      have "0 \<le> real k * (3 / 100)" by simp
      with False show ?thesis by linarith
    qed
    with False show ?thesis
      by (subst frange.simps) auto
  next
    case True
    have shift: "x + 3 / 100 + real k * (3 / 100) = x + real (Suc k) * (3 / 100)" for k :: nat
      by (simp add: algebra_simps)
    have "set (frange x hi) = insert x (set (frange (x + 3 / 100) hi))"
      using True by (subst frange.simps) simp
    also have "\<dots> = insert x {y. \<exists>k::nat. y = x + 3 / 100 + real k * (3 / 100) \<and> y \<le> hi}"
      using "1.IH"[OF True] by simp
    also have "\<dots> = {y. \<exists>k::nat. y = x + real k * (3 / 100) \<and> y \<le> hi}" (is "?A = ?B")
    proof (rule set_eqI)
      fix y
      show "y \<in> ?A \<longleftrightarrow> y \<in> ?B"
      proof
        assume "y \<in> ?A"
        then consider "y = x" | k :: nat where "y = x + 3 / 100 + real k * (3 / 100)" "y \<le> hi"
          by auto
        then show "y \<in> ?B"
        proof cases
          case 1
          then have "y = x + real 0 * (3 / 100) \<and> y \<le> hi" using True by simp
          then show ?thesis by blast
        next
          case 2
          then have "y = x + real (Suc k) * (3 / 100) \<and> y \<le> hi" by (simp add: shift)
          then show ?thesis by blast
        qed
      next
        assume "y \<in> ?B"
        then obtain k :: nat where k: "y = x + real k * (3 / 100)" "y \<le> hi" by auto
        show "y \<in> ?A"
        proof (cases k)
          case 0
          with k show ?thesis by simp
        next
          case (Suc j)
          with k have "y = x + 3 / 100 + real j * (3 / 100)" by (simp add: algebra_simps)
          with k(2) show ?thesis by blast
        qed
      qed
    qed
    finally show ?thesis .
  qed
qed


lemma set_map_filter: "c \<in> set (List.map_filter f xs) \<longleftrightarrow> (\<exists>x \<in> set xs. f x = Some c)"
  by (induction xs) (auto simp: List.map_filter_simps split: option.splits)

lemma sampledCells_iff:
  "c \<in> sampledCells g pose width height forwardOffset \<longleftrightarrow>
     (\<exists>x \<in> set (frange (- width / 2) (width / 2)).
      \<exists>y \<in> set (frange (- height / 2) (height / 2 + forwardOffset)).
        getGridPoint g (rectPoint pose x y) = Some c)"
  by (simp add: sampledCells_def set_map_filter)



lemma floor_minus_one: "\<lfloor>- 1 :: real\<rfloor> = - 1"
  by (rule floor_unique) simp_all

lemma sqrt_gt_iff: "0 \<le> r \<Longrightarrow> (r < sqrt a) = (r\<^sup>2 < a)"
  by (metis real_sqrt_less_iff real_sqrt_abs abs_of_nonneg)




text \<open>
  C6 (as amended). The radius stamp called with a pose whose position is outside the
  traversability grid fails with the pose-out-of-grid error and changes nothing. The
  rectangle stamp has no error path: a sample point outside the grid leaves the generator as
  it is and the loops go on.
\<close>

theorem C6_out_of_grid_pose:
  "(getGridPoint (traversabilityGrid s) (position pose) = None \<longrightarrow>
      markUnknownInRadiusAs med pose radius type s = (s, Some PoseOutOfGrid)) \<and>
   (getGridPoint (laserGrid s) (rectPoint pose x y) = None \<longrightarrow>
      rectStep med pose type x y s = s)"
  by (simp add: markUnknownInRadiusAs_def rectStep_def)

theorem C6_out_of_grid_pose_witness:
  "getGridPoint (traversabilityGrid (stampState 2 2)) (position outsidePose) = None \<and>
   markUnknownInRadiusAs median_of outsidePose 1 OBSTACLE (stampState 2 2) = (stampState 2 2, Some PoseOutOfGrid) \<and>
   getGridPoint (laserGrid (stampState 2 2)) (rectPoint outsidePose 0 0) = None \<and>
   rectStep median_of outsidePose OBSTACLE 0 0 (stampState 2 2) = stampState 2 2"
proof -
  have a: "getGridPoint (traversabilityGrid (stampState 2 2)) (position outsidePose) = None"
    by (simp add: getGridPoint_def outsidePose_def stampState_def gridOf_def inGrid_def)
  have b: "getGridPoint (laserGrid (stampState 2 2)) (rectPoint outsidePose 0 0) = None"
    by (simp add: getGridPoint_def rectPoint_def outsidePose_def stampState_def gridOf_def inGrid_def)
  from C6_out_of_grid_pose[of "stampState 2 2" outsidePose median_of 1 OBSTACLE 0 0] a b show ?thesis by simp
qed

text \<open>
  C6 (as stated) fails for the rectangle variant: with the pose at \<open>x = -1.03\<close>, outside the
  2 x 2 grid, and width 0.06, the call completes and has stamped the cell \<open>(0, 1)\<close>.
\<close>

theorem C6_rectangle_completes_counterexample:
  "getGridPoint (traversabilityGrid (stampState 2 2)) (position outsidePose) = None \<and>
   getEntry (traversabilityGrid (stampState 2 2)) (0, 1) = UNCLASSIFIED \<and>
   getEntry (traversabilityGrid (markUnknownInRectangeAs median_of outsidePose (6 / 100) 0 0 OBSTACLE (stampState 2 2))) (0, 1) = OBSTACLE"
proof -
  have a: "getGridPoint (traversabilityGrid (stampState 2 2)) (position outsidePose) = None"
    by (simp add: getGridPoint_def outsidePose_def stampState_def gridOf_def inGrid_def)
  have u: "getEntry (traversabilityGrid (stampState 2 2)) (0, 1) = UNCLASSIFIED"
    by (simp add: stampState_def gridOf_def)
  have "(3 / 100 :: real) = - (6 / 100) / 2 + real 2 * (3 / 100) \<and> (3 / 100 :: real) \<le> 6 / 100 / 2"
    by simp
  then have x: "(3 / 100 :: real) \<in> set (frange (- (6 / 100) / 2) (6 / 100 / 2))"
    unfolding frange_set by blast
  have y: "(0 :: real) \<in> set (frange (- 0 / 2) (0 / 2 + 0))"
    by (subst frange.simps) simp
  have "getGridPoint (laserGrid (stampState 2 2)) (rectPoint outsidePose (3 / 100) 0) = Some (0, 1)"
    by (simp add: getGridPoint_def rectPoint_def outsidePose_def stampState_def gridOf_def inGrid_def
        Let_def floor_minus_one)
  with x y have "(0, 1) \<in> sampledCells (laserGrid (stampState 2 2)) outsidePose (6 / 100) 0 0"
    unfolding sampledCells_iff by blast
  with a u show ?thesis
    by (simp add: rect_char rectAfter_trav stampT_def unknownClass_def)
qed

section \<open>Properties of the grid dump\<close>

lemma dumpCell_at:
  "gd_height (dumpCell s x y gd) i =
     (if i = x * getWidth (laserGrid s) + y
      then (if getMeasurementCount (getEntry (interpolatedGrid s) (x, y)) \<noteq> 0
            then Finite (getMedian (getEntry (interpolatedGrid s) (x, y))) else Infinity)
      else gd_height gd i)"
  "gd_max (dumpCell s x y gd) i =
     (if i = x * getWidth (laserGrid s) + y then getMaximum (getEntry (interpolatedGrid s) (x, y))
      else gd_max gd i)"
  "gd_interpolated (dumpCell s x y gd) i =
     (if i = x * getWidth (laserGrid s) + y then isInterpolated (getEntry (interpolatedGrid s) (x, y))
      else gd_interpolated gd i)"
  "gd_traversability (dumpCell s x y gd) i =
     (if i = x * getWidth (laserGrid s) + y then getEntry (traversabilityGrid s) (x, y)
      else gd_traversability gd i)"
  by (simp_all add: dumpCell_def Let_def)

lemma dump_column:
  "gd_height (fold (\<lambda>y. dumpCell s x y) ys gd) i =
     (if \<exists>y \<in> set ys. i = x * getWidth (laserGrid s) + y
      then dumpedHeight s x (i - x * getWidth (laserGrid s)) else gd_height gd i)"
  "gd_max (fold (\<lambda>y. dumpCell s x y) ys gd) i =
     (if \<exists>y \<in> set ys. i = x * getWidth (laserGrid s) + y
      then getMaximum (getEntry (interpolatedGrid s) (x, i - x * getWidth (laserGrid s)))
      else gd_max gd i)"
  "gd_interpolated (fold (\<lambda>y. dumpCell s x y) ys gd) i =
     (if \<exists>y \<in> set ys. i = x * getWidth (laserGrid s) + y
      then isInterpolated (getEntry (interpolatedGrid s) (x, i - x * getWidth (laserGrid s)))
      else gd_interpolated gd i)"
  "gd_traversability (fold (\<lambda>y. dumpCell s x y) ys gd) i =
     (if \<exists>y \<in> set ys. i = x * getWidth (laserGrid s) + y
      then getEntry (traversabilityGrid s) (x, i - x * getWidth (laserGrid s))
      else gd_traversability gd i)"
  by (induction ys arbitrary: gd) (auto simp: dumpCell_at dumpedHeight_def)

lemma square_index:
  fixes x y W :: int
  assumes "0 \<le> y" "y < W"
  shows "(x * W + y) div W = x" "(x * W + y) mod W = y"
  using assms by simp_all

lemma dump_columns:
  assumes ys: "\<forall>y \<in> set ys. 0 \<le> y \<and> y < getWidth (laserGrid s)"
  shows "gd_height (fold (\<lambda>x. fold (\<lambda>y. dumpCell s x y) ys) xs gd) i =
     (if \<exists>x \<in> set xs. \<exists>y \<in> set ys. i = x * getWidth (laserGrid s) + y
      then dumpedHeight s (i div getWidth (laserGrid s)) (i mod getWidth (laserGrid s))
      else gd_height gd i)"
    and "gd_max (fold (\<lambda>x. fold (\<lambda>y. dumpCell s x y) ys) xs gd) i =
     (if \<exists>x \<in> set xs. \<exists>y \<in> set ys. i = x * getWidth (laserGrid s) + y
      then getMaximum (getEntry (interpolatedGrid s)
             (i div getWidth (laserGrid s), i mod getWidth (laserGrid s)))
      else gd_max gd i)"
    and "gd_interpolated (fold (\<lambda>x. fold (\<lambda>y. dumpCell s x y) ys) xs gd) i =
     (if \<exists>x \<in> set xs. \<exists>y \<in> set ys. i = x * getWidth (laserGrid s) + y
      then isInterpolated (getEntry (interpolatedGrid s)
             (i div getWidth (laserGrid s), i mod getWidth (laserGrid s)))
      else gd_interpolated gd i)"
    and "gd_traversability (fold (\<lambda>x. fold (\<lambda>y. dumpCell s x y) ys) xs gd) i =
     (if \<exists>x \<in> set xs. \<exists>y \<in> set ys. i = x * getWidth (laserGrid s) + y
      then getEntry (traversabilityGrid s)
             (i div getWidth (laserGrid s), i mod getWidth (laserGrid s))
      else gd_traversability gd i)"
proof (induction xs arbitrary: gd)
  case Nil
  { case 1 show ?case by simp }
  { case 2 show ?case by simp }
  { case 3 show ?case by simp }
  { case 4 show ?case by simp }
next
  case (Cons x xs)
  have here: "i - x * getWidth (laserGrid s) = i mod getWidth (laserGrid s) \<and>
              x = i div getWidth (laserGrid s)"
    if "y \<in> set ys" "i = x * getWidth (laserGrid s) + y" for y
    using that ys square_index[of y "getWidth (laserGrid s)" x] by auto
  { case 1 show ?case using here by (auto simp: Cons.IH dump_column) }
  { case 2 show ?case using here by (auto simp: Cons.IH dump_column) }
  { case 3 show ?case using here by (auto simp: Cons.IH dump_column) }
  { case 4 show ?case using here by (auto simp: Cons.IH dump_column) }
qed

text \<open>
  On square grids the index \<open>x * width + y\<close> is one-to-one and every cell is found in the
  dump at its index.
\<close>

lemma getGridDump_square:
  assumes sizes: "getHeight (laserGrid s) = getHeight (interpolatedGrid s)"
      "getHeight (laserGrid s) = getHeight (traversabilityGrid s)"
      "getWidth (laserGrid s) = getWidth (interpolatedGrid s)"
      "getWidth (laserGrid s) = getWidth (traversabilityGrid s)"
    and square: "getWidth (laserGrid s) = getHeight (laserGrid s)"
    and cell: "inGrid (laserGrid s) (x, y)"
  shows "case getGridDump s gd of
           None \<Rightarrow> False
         | Some gd' \<Rightarrow>
             gd_height gd' (x * getWidth (laserGrid s) + y) =
               (if getMeasurementCount (getEntry (interpolatedGrid s) (x, y)) \<noteq> 0
                then Finite (getMedian (getEntry (interpolatedGrid s) (x, y))) else Infinity) \<and>
             gd_max gd' (x * getWidth (laserGrid s) + y) =
               getMaximum (getEntry (interpolatedGrid s) (x, y)) \<and>
             gd_interpolated gd' (x * getWidth (laserGrid s) + y) =
               isInterpolated (getEntry (interpolatedGrid s) (x, y)) \<and>
             gd_traversability gd' (x * getWidth (laserGrid s) + y) =
               getEntry (traversabilityGrid s) (x, y)"
proof -
  let ?W = "getWidth (laserGrid s)"
  let ?ys = "[0 .. getHeight (laserGrid s) - 1]"
  let ?xs = "[0 .. ?W - 1]"
  have ys: "\<forall>y \<in> set ?ys. 0 \<le> y \<and> y < ?W"
    using square by auto
  have xy: "0 \<le> x" "x < ?W" "0 \<le> y" "y < ?W"
    using cell square by (simp_all add: inGrid_def)
  have "x \<in> set ?xs" "y \<in> set ?ys"
    using xy square by simp_all
  then have ex: "\<exists>a \<in> set ?xs. \<exists>b \<in> set ?ys. x * ?W + y = a * ?W + b"
    by blast
  have idx: "(x * ?W + y) div ?W = x" "(x * ?W + y) mod ?W = y"
    using square_index[of y ?W x] xy by simp_all
  obtain px py pz where pos: "getGridPosition (traversabilityGrid s) = (px, py, pz)"
    by (cases "getGridPosition (traversabilityGrid s)")
  let ?gd1 = "fold (\<lambda>x. fold (\<lambda>y. dumpCell s x y) ?ys) ?xs gd"
  have h: "gd_height ?gd1 (x * ?W + y) = dumpedHeight s x y"
    using ex by (simp only: dump_columns(1)[OF ys] idx if_True)
  have m: "gd_max ?gd1 (x * ?W + y) = getMaximum (getEntry (interpolatedGrid s) (x, y))"
    using ex by (simp only: dump_columns(2)[OF ys] idx if_True)
  have i: "gd_interpolated ?gd1 (x * ?W + y) = isInterpolated (getEntry (interpolatedGrid s) (x, y))"
    using ex by (simp only: dump_columns(3)[OF ys] idx if_True)
  have t: "gd_traversability ?gd1 (x * ?W + y) = getEntry (traversabilityGrid s) (x, y)"
    using ex by (simp only: dump_columns(4)[OF ys] idx if_True)
  have dump: "getGridDump s gd =
      Some (?gd1\<lparr>gridPositionX := px, gridPositionY := py, gridPositionZ := pz\<rparr>)"
    using sizes by (simp add: getGridDump_def pos Let_def)
  show ?thesis
    unfolding dump by (simp add: h m i t dumpedHeight_def)
qed

text \<open>
  C7. The code evaluated on grids of width 2 and height 3 whose cell \<open>(0, 2)\<close> is measured
  with median 7 and TRAVERSABLE: the index \<open>0 * 2 + 2\<close> of that cell is written again for the
  cell \<open>(1, 0)\<close>, and none of the six array elements holds the median or the class of the cell.
  (Compare \<open>getGridDump_square\<close>.)
\<close>

theorem C7_dump_of_non_square_grid:
  "getMeasurementCount (getEntry (interpolatedGrid dumpState) (0, 2)) = 1 \<and>
   getMedian (getEntry (interpolatedGrid dumpState) (0, 2)) = 7 \<and>
   getEntry (traversabilityGrid dumpState) (0, 2) = TRAVERSABLE \<and>
   getGridDump dumpState blankDump \<noteq> None \<and>
   map (gd_height (the (getGridDump dumpState blankDump))) [0, 1, 2, 3, 4, 5] =
     [Infinity, Infinity, Infinity, Infinity, Infinity, Infinity] \<and>
   map (gd_traversability (the (getGridDump dumpState blankDump))) [0, 1, 2, 3, 4, 5] =
     [UNCLASSIFIED, UNCLASSIFIED, UNCLASSIFIED, UNCLASSIFIED, UNCLASSIFIED, UNCLASSIFIED]"
  by (simp add: getGridDump_def dumpCell_def dumpState_def blankDump_def gridOf_def measuredEntry_def
      emptyEntry_def addHeightMeasurement_def getMeasurementCount_def median_of_def upto_rec1 Let_def)

theorem C7_dump_of_non_square_grid_witness:
  "gd_height (the (getGridDump dumpState blankDump)) (0 * 2 + 2) = Infinity \<and>
   getMedian (getEntry (interpolatedGrid dumpState) (0, 2)) = 7"
  using C7_dump_of_non_square_grid by simp

section \<open>Properties of the scan ingest\<close>


lemma setEntry_gridPoint: "getGridPoint (setEntry g c v) p = getGridPoint g p"
  by (simp add: setEntry_def getGridPoint_def inGrid_def)

lemma addLaserScan_gridPoint:
  "getGridPoint (ElevationGrid_addLaserScan med pts g) p = getGridPoint g p"
  unfolding ElevationGrid_addLaserScan_def
  by (induction pts arbitrary: g) (simp_all add: setEntry_gridPoint split: option.splits)





section \<open>The radius stamp at the edge of its square\<close>

text \<open>
  C10. The code evaluated on a 2 x 2 grid of resolution 1. With the pose in cell \<open>(1, 1)\<close> and
  radius 1.5 the loops run over the offsets \<open>-1\<close> and \<open>0\<close> only: the cell \<open>(2, 1)\<close>, at
  distance 1 from the pose and outside the grid, is never visited, and the call returns
  without an error. With the pose in cell \<open>(1, 0)\<close> and radius 1 the cell \<open>(0, 0)\<close> is stamped
  first, then the visit of \<open>(1, -1)\<close> raises the access-out-of-grid error, and the cell
  \<open>(0, 0)\<close> keeps the class written before the error.
\<close>

theorem C10_radius_stamp_skips_far_edge:
  "getGridPoint (traversabilityGrid (stampState 2 2)) (1 / 2, 1 / 2, 0) = Some (1, 1) \<and>
   \<not> inGrid (traversabilityGrid (stampState 2 2)) (1 + 1, 1 + 0) \<and>
   sqrt ((1 * 1) * (1 * 1) + (0 * 1) * (0 * 1)) \<le> (3 / 2 :: real) \<and>
   snd (markUnknownInRadiusAs median_of \<lparr>position = (1 / 2, 1 / 2, 0), heading = 0\<rparr> (3 / 2) OBSTACLE
          (stampState 2 2)) = None \<and>
   snd (markUnknownInRadiusAs median_of \<lparr>position = (1 / 2, - 1 / 2, 0), heading = 0\<rparr> 1 OBSTACLE
          (stampState 2 2)) = Some AccessOutOfGrid \<and>
   getEntry (traversabilityGrid (stampState 2 2)) (0, 0) = UNCLASSIFIED \<and>
   getEntry (traversabilityGrid (fst (markUnknownInRadiusAs median_of
      \<lparr>position = (1 / 2, - 1 / 2, 0), heading = 0\<rparr> 1 OBSTACLE (stampState 2 2)))) (0, 0) = OBSTACLE"
  by (simp add: markUnknownInRadiusAs_def radiusStep_def stampState_def gridOf_def getGridPoint_def
      inGrid_def toInt_def upto_rec1 sqrt_gt_iff setEntry_def Let_def power2_eq_square)

theorem C10_radius_stamp_skips_far_edge_witness:
  "\<not> inGrid (traversabilityGrid (stampState 2 2)) (2, 1) \<and>
   snd (markUnknownInRadiusAs median_of \<lparr>position = (1 / 2, 1 / 2, 0), heading = 0\<rparr> (3 / 2) OBSTACLE
          (stampState 2 2)) = None"
  using C10_radius_stamp_skips_far_edge by simp

end
